theory Spec2Isabelle
  imports Complex_Main "HOL-Library.Word"
begin

section \<open>Mosaic image augmentation: the data model\<close>

text \<open>
  The development follows \<^verbatim>\<open>main.py\<close>. Python floats (the two scale fractions and the
  box coordinates) are idealised as real numbers; Python integers are \<open>int\<close>; array
  shapes and indices, which numpy keeps non-negative, are \<open>nat\<close>. A numpy image of shape
  \<open>(h, w, 3)\<close> with \<open>uint8\<close> entries is a record of its two leading dimensions and the
  pixel found at each row and column.
\<close>

type_synonym pixel = "8 word \<times> 8 word \<times> 8 word"

record image =
  height :: nat
  width :: nat
  pix :: "nat \<Rightarrow> nat \<Rightarrow> pixel"

text \<open>A box as the cropper hands it over: the tuple \<open>(x_center, y_center, w, h)\<close>.\<close>

type_synonym bbox = "real \<times> real \<times> real \<times> real"

datatype error = InvalidGeometry | DecodeFailure | ValueError | IndexError

fun err_bind :: "error + 'a \<Rightarrow> ('a \<Rightarrow> error + 'b) \<Rightarrow> error + 'b" where
  "err_bind (Inl e) f = Inl e"
| "err_bind (Inr x) f = f x"

text \<open>\<^verbatim>\<open>xs[k]\<close> for a non-negative constant \<open>k\<close>: Python raises IndexError out of range.\<close>

definition list_get :: "'a list \<Rightarrow> nat \<Rightarrow> error + 'a" where
  "list_get xs k = (if k < length xs then Inr (xs ! k) else Inl IndexError)"

section \<open>The collaborators of the cropper\<close>

text \<open>
  \<^verbatim>\<open>random_crop_savebboxes\<close> delegates to the module \<^verbatim>\<open>utils\<close> and to the augmentation
  library, neither of which is among the sources. They are parameters of the model:
  \<open>preprocess\<close> yields the image and label paths (its third result is discarded by the
  caller), \<open>read_label\<close> and \<open>read_img\<close> load the annotation and the pixels, and \<open>compose\<close>
  builds, from the expected height and width and the two thresholds, the transform that
  is then applied to the image, the boxes and the labels. The transform draws from the
  process-wide random source, a state of type \<open>'g\<close> that it returns updated.
\<close>

record ('g, 'l) collaborators =
  preprocess :: "string \<Rightarrow> string \<Rightarrow> string \<Rightarrow> error + (string \<times> string)"
  read_label :: "string \<Rightarrow> error + (bbox list \<times> 'l list)"
  read_img :: "string \<Rightarrow> error + image"
  compose :: "int \<Rightarrow> int \<Rightarrow> int \<Rightarrow> real \<Rightarrow>
    error + ('g \<Rightarrow> image \<Rightarrow> bbox list \<Rightarrow> 'l list \<Rightarrow> (error + (image \<times> bbox list \<times> 'l list)) \<times> 'g)"

definition random_crop_savebboxes ::
  "('g, 'l) collaborators \<Rightarrow> 'g \<Rightarrow> string \<Rightarrow> string \<Rightarrow> string \<Rightarrow> int \<Rightarrow> int \<Rightarrow> int \<Rightarrow> real \<Rightarrow>
   (error + (image \<times> bbox list \<times> 'l list)) \<times> 'g" where
  "random_crop_savebboxes env g image_name image_dir label_dir expected_h expected_w
      min_area min_visibility =
     (case preprocess env image_name image_dir label_dir of
        Inl e \<Rightarrow> (Inl e, g)
      | Inr (image_path, label_path) \<Rightarrow>
          (case read_label env label_path of
             Inl e \<Rightarrow> (Inl e, g)
           | Inr (bboxes, class_labels) \<Rightarrow>
               (case compose env expected_h expected_w min_area min_visibility of
                  Inl e \<Rightarrow> (Inl e, g)
                | Inr transform \<Rightarrow>
                    (case read_img env image_path of
                       Inl e \<Rightarrow> (Inl e, g)
                     | Inr img \<Rightarrow> transform g img bboxes class_labels))))"



section \<open>Output paths\<close>

text \<open>\<^verbatim>\<open>s.split(sep)\<close> for a one-character separator: never an empty list.\<close>

fun py_split :: "char \<Rightarrow> string \<Rightarrow> string list" where
  "py_split sep [] = [[]]"
| "py_split sep (c # cs) =
     (if c = sep then [] # py_split sep cs
      else (case py_split sep cs of
              [] \<Rightarrow> [[c]]
            | p # ps \<Rightarrow> (c # p) # ps))"

text \<open>\<^verbatim>\<open>image_file_list[k].split('.')[0]\<close>\<close>

definition base_name :: "string list \<Rightarrow> nat \<Rightarrow> error + string" where
  "base_name image_file_list k =
     err_bind (list_get image_file_list k) (\<lambda>name. list_get (py_split (CHR ''.'') name) 0)"

definition mo_name :: "string list \<Rightarrow> string \<Rightarrow> error + string" where
  "mo_name image_file_list ext =
     err_bind (base_name image_file_list 0) (\<lambda>b0.
     err_bind (base_name image_file_list 1) (\<lambda>b1.
     err_bind (base_name image_file_list 2) (\<lambda>b2.
     err_bind (base_name image_file_list 3) (\<lambda>b3.
       Inr (''mo_'' @ b0 @ ''_'' @ b1 @ ''_'' @ b2 @ ''_'' @ b3 @ ext)))))"

text \<open>\<^verbatim>\<open>osp.sep.join(parts)\<close> on a POSIX system, where the separator is a slash.\<close>

fun sep_join :: "string list \<Rightarrow> string" where
  "sep_join [] = []"
| "sep_join [p] = p"
| "sep_join (p # ps) = p @ ''/'' @ sep_join ps"

definition create_data_store_path :: "string \<Rightarrow> string \<Rightarrow> string list \<Rightarrow> error + (string \<times> string)" where
  "create_data_store_path output_image_dir output_label_dir image_file_list =
     err_bind (mo_name image_file_list ''.jpg'') (\<lambda>image_name.
     err_bind (mo_name image_file_list ''.txt'') (\<lambda>label_name.
       Inr (sep_join [output_image_dir, image_name], sep_join [output_label_dir, label_name])))"

text \<open>
  The naming rule in the spec's words, for comparison: the base of a file name is the
  name with its extension removed, the extension being the last dot and what follows it.
\<close>

definition spec_base :: "string \<Rightarrow> string" where
  "spec_base name =
     (if CHR ''.'' \<in> set name then rev (tl (dropWhile (\<lambda>c. c \<noteq> CHR ''.'') (rev name))) else name)"

definition spec_store_name :: "string list \<Rightarrow> string \<Rightarrow> string" where
  "spec_store_name names ext =
     ''mo_'' @ spec_base (names ! 0) @ ''_'' @ spec_base (names ! 1) @ ''_'' @
     spec_base (names ! 2) @ ''_'' @ spec_base (names ! 3) @ ext"

section \<open>The split point and the quadrants\<close>

text \<open>\<^verbatim>\<open>int(r)\<close> on a float truncates towards zero.\<close>

definition py_int :: "real \<Rightarrow> int" where
  "py_int r = (if 0 \<le> r then \<lfloor>r\<rfloor> else \<lceil>r\<rceil>)"

definition div_point_x :: "int \<Rightarrow> real \<Rightarrow> int" where
  "div_point_x mo_w scale_x = py_int (real_of_int mo_w * scale_x)"

definition div_point_y :: "int \<Rightarrow> real \<Rightarrow> int" where
  "div_point_y mo_h scale_y = py_int (real_of_int mo_h * scale_y)"

text \<open>
  The expected width and height of quadrant \<open>q\<close> (\<^verbatim>\<open>w0, h0\<close> to \<^verbatim>\<open>w3, h3\<close>), in the order of
  the source's branches: \<^verbatim>\<open>not i\<close>, \<^verbatim>\<open>i == 1\<close>, \<^verbatim>\<open>i == 2\<close>, else.
\<close>

definition target_w :: "nat \<Rightarrow> int \<Rightarrow> real \<Rightarrow> int" where
  "target_w q mo_w scale_x =
     (if q = 0 then div_point_x mo_w scale_x
      else if q = 1 then mo_w - div_point_x mo_w scale_x
      else if q = 2 then div_point_x mo_w scale_x
      else mo_w - div_point_x mo_w scale_x)"

definition target_h :: "nat \<Rightarrow> int \<Rightarrow> real \<Rightarrow> int" where
  "target_h q mo_h scale_y =
     (if q = 0 then div_point_y mo_h scale_y
      else if q = 1 then div_point_y mo_h scale_y
      else if q = 2 then mo_h - div_point_y mo_h scale_y
      else mo_h - div_point_y mo_h scale_y)"

subsection \<open>The canvas and its slices\<close>

text \<open>
  \<^verbatim>\<open>np.empty((mo_h, mo_w, 3))\<close> refuses a negative dimension and otherwise returns an
  array of unspecified content, here the parameter \<open>junk\<close>.
\<close>

definition np_empty :: "int \<Rightarrow> int \<Rightarrow> (nat \<Rightarrow> nat \<Rightarrow> pixel) \<Rightarrow> error + image" where
  "np_empty mo_h mo_w junk =
     (if mo_h < 0 \<or> mo_w < 0 then Inl ValueError
      else Inr \<lparr>height = nat mo_h, width = nat mo_w, pix = junk\<rparr>)"

text \<open>
  A slice bound \<open>d\<close> on an axis of length \<open>n\<close>: a negative bound counts from the end, and
  the result is clipped to the axis. \<^verbatim>\<open>a[:d]\<close> is the half-open span from 0 to the clipped
  bound, \<^verbatim>\<open>a[d:]\<close> the span from the clipped bound to \<open>n\<close>.
\<close>

definition clip_index :: "nat \<Rightarrow> int \<Rightarrow> nat" where
  "clip_index n d = (if d < 0 then nat (max 0 (d + int n)) else nat (min d (int n)))"

definition slice_to :: "nat \<Rightarrow> int \<Rightarrow> nat \<times> nat" where
  "slice_to n d = (0, clip_index n d)"

definition slice_from :: "nat \<Rightarrow> int \<Rightarrow> nat \<times> nat" where
  "slice_from n d = (clip_index n d, n)"

text \<open>The row span and the column span that quadrant \<open>q\<close> assigns to.\<close>

definition region :: "nat \<Rightarrow> image \<Rightarrow> int \<Rightarrow> int \<Rightarrow> (nat \<times> nat) \<times> (nat \<times> nat)" where
  "region q new_img dx dy =
     (if q = 0 then (slice_to (height new_img) dy, slice_to (width new_img) dx)
      else if q = 1 then (slice_to (height new_img) dy, slice_from (width new_img) dx)
      else if q = 2 then (slice_from (height new_img) dy, slice_to (width new_img) dx)
      else (slice_from (height new_img) dy, slice_from (width new_img) dx))"

definition in_span :: "nat \<times> nat \<Rightarrow> nat \<Rightarrow> bool" where
  "in_span s k \<longleftrightarrow> fst s \<le> k \<and> k < snd s"

definition region_set :: "nat \<Rightarrow> image \<Rightarrow> int \<Rightarrow> int \<Rightarrow> (nat \<times> nat) set" where
  "region_set q new_img dx dy =
     {(r, c). in_span (fst (region q new_img dx dy)) r \<and> in_span (snd (region q new_img dx dy)) c}"

text \<open>
  \<^verbatim>\<open>a[rows, cols, :] = v\<close>: numpy broadcasts \<open>v\<close> to the shape of the selected block, which
  succeeds when each dimension of \<open>v\<close> equals the block's or is 1, and raises ValueError
  otherwise. Only the selected block is written.
\<close>

definition assign_region :: "image \<Rightarrow> (nat \<times> nat) \<times> (nat \<times> nat) \<Rightarrow> image \<Rightarrow> error + image" where
  "assign_region a reg v =
     (let rows = fst reg; cols = snd reg in
      if (height v = snd rows - fst rows \<or> height v = 1) \<and>
         (width v = snd cols - fst cols \<or> width v = 1)
      then Inr (a\<lparr>pix := (\<lambda>r c.
             if in_span rows r \<and> in_span cols c
             then pix v (if height v = 1 then 0 else r - fst rows)
                        (if width v = 1 then 0 else c - fst cols)
             else pix a r c)\<rparr>)
      else Inl ValueError)"

subsection \<open>Remapping the boxes of a quadrant\<close>

text \<open>The four values written for one box, by quadrant, as the four branches compute them.\<close>

definition new_x :: "nat \<Rightarrow> real \<Rightarrow> bbox \<Rightarrow> real" where
  "new_x q scale_x box =
     (case box of (b0, b1, b2, b3) \<Rightarrow>
        if q = 0 then b0 * scale_x
        else if q = 1 then b0 * (1 - scale_x) + scale_x
        else if q = 2 then b0 * scale_x
        else b0 * (1 - scale_x) + scale_x)"

definition new_w :: "nat \<Rightarrow> real \<Rightarrow> bbox \<Rightarrow> real" where
  "new_w q scale_x box =
     (case box of (b0, b1, b2, b3) \<Rightarrow>
        if q = 0 then b2 * scale_x
        else if q = 1 then b2 * (1 - scale_x)
        else if q = 2 then b2 * scale_x
        else b2 * (1 - scale_x))"

definition new_y :: "nat \<Rightarrow> real \<Rightarrow> bbox \<Rightarrow> real" where
  "new_y q scale_y box =
     (case box of (b0, b1, b2, b3) \<Rightarrow>
        if q = 0 then b1 * scale_y
        else if q = 1 then b1 * scale_y
        else if q = 2 then b1 * (1 - scale_y) + scale_y
        else b1 * (1 - scale_y) + scale_y)"

definition new_h :: "nat \<Rightarrow> real \<Rightarrow> bbox \<Rightarrow> real" where
  "new_h q scale_y box =
     (case box of (b0, b1, b2, b3) \<Rightarrow>
        if q = 0 then b3 * scale_y
        else if q = 1 then b3 * scale_y
        else if q = 2 then b3 * (1 - scale_y)
        else b3 * (1 - scale_y))"

text \<open>
  \<^verbatim>\<open>np.zeros((n, 4)).tolist()\<close>, or the empty list when there is no box, and the
  assignment \<^verbatim>\<open>new[i][k] = v\<close>, which raises IndexError out of range.
\<close>

definition fresh_boxes :: "nat \<Rightarrow> real list list" where
  "fresh_boxes n = (if n = 0 then [] else replicate n [0, 0, 0, 0])"

definition set_item :: "real list list \<Rightarrow> nat \<Rightarrow> nat \<Rightarrow> real \<Rightarrow> error + real list list" where
  "set_item new i k v =
     (if i < length new \<and> k < length (new ! i) then Inr (new[i := (new ! i)[k := v]])
      else Inl IndexError)"

text \<open>
  The loop \<^verbatim>\<open>for i, box in enumerate(bboxes)\<close>, writing slots 0, 2, 1, 3 in the source's
  order. The loop rebinds \<^verbatim>\<open>i\<close>, which does not disturb the outer \<^verbatim>\<open>for i in range(4)\<close>.
\<close>

fun remap_loop :: "nat \<Rightarrow> real \<Rightarrow> real \<Rightarrow> (nat \<times> bbox) list \<Rightarrow> real list list \<Rightarrow> error + real list list" where
  "remap_loop q scale_x scale_y [] new = Inr new"
| "remap_loop q scale_x scale_y ((i, box) # rest) new =
     err_bind (set_item new i 0 (new_x q scale_x box)) (\<lambda>new.
     err_bind (set_item new i 2 (new_w q scale_x box)) (\<lambda>new.
     err_bind (set_item new i 1 (new_y q scale_y box)) (\<lambda>new.
     err_bind (set_item new i 3 (new_h q scale_y box)) (\<lambda>new.
       remap_loop q scale_x scale_y rest new))))"

definition remap_bboxes :: "nat \<Rightarrow> real \<Rightarrow> real \<Rightarrow> bbox list \<Rightarrow> error + real list list" where
  "remap_bboxes q scale_x scale_y bboxes =
     remap_loop q scale_x scale_y (enumerate 0 bboxes) (fresh_boxes (length bboxes))"

section \<open>The composer\<close>

text \<open>
  One pass of the loop body for quadrant \<open>q\<close>: crop the \<open>q\<close>-th image to the quadrant's
  size, copy it into the canvas, remap its boxes. The state carried from one quadrant to
  the next is the random source and the canvas.
\<close>

definition quadrant ::
  "('g, 'l) collaborators \<Rightarrow> nat \<Rightarrow> string list \<Rightarrow> string \<Rightarrow> string \<Rightarrow> int \<Rightarrow> int \<Rightarrow> real \<Rightarrow> real \<Rightarrow>
   int \<Rightarrow> real \<Rightarrow> 'g \<times> image \<Rightarrow> error + (('g \<times> image) \<times> real list list \<times> 'l list)" where
  "quadrant env q image_file_list image_dir label_dir mo_w mo_h scale_x scale_y
      min_area min_visibility st =
     err_bind (list_get image_file_list q) (\<lambda>image_name.
       case random_crop_savebboxes env (fst st) image_name image_dir label_dir
              (target_h q mo_h scale_y) (target_w q mo_w scale_x) min_area min_visibility of
         (Inl e, g') \<Rightarrow> Inl e
       | (Inr (img, bboxes, class_labels), g') \<Rightarrow>
           err_bind (assign_region (snd st)
                       (region q (snd st) (div_point_x mo_w scale_x) (div_point_y mo_h scale_y)) img)
             (\<lambda>new_img.
           err_bind (remap_bboxes q scale_x scale_y bboxes) (\<lambda>bboxes_new.
             Inr ((g', new_img), bboxes_new, class_labels))))"

text \<open>
  The part of \<^verbatim>\<open>mosaic\<close> before the files are written: allocate the canvas, run the four
  quadrants in order, concatenate the labels and the remapped boxes.
\<close>

definition mosaic_compose ::
  "('g, 'l) collaborators \<Rightarrow> 'g \<Rightarrow> (nat \<Rightarrow> nat \<Rightarrow> pixel) \<Rightarrow> string list \<Rightarrow> string \<Rightarrow> string \<Rightarrow>
   int \<Rightarrow> int \<Rightarrow> real \<Rightarrow> real \<Rightarrow> int \<Rightarrow> real \<Rightarrow> error + (image \<times> real list list \<times> 'l list)" where
  "mosaic_compose env g junk image_file_list image_dir label_dir mo_w mo_h scale_x scale_y
      min_area min_visibility =
     err_bind (np_empty mo_h mo_w junk) (\<lambda>new_img.
     err_bind (quadrant env 0 image_file_list image_dir label_dir mo_w mo_h scale_x scale_y
                 min_area min_visibility (g, new_img))
       (\<lambda>(st, bboxes_0_new, class_labels_0).
     err_bind (quadrant env 1 image_file_list image_dir label_dir mo_w mo_h scale_x scale_y
                 min_area min_visibility st)
       (\<lambda>(st, bboxes_1_new, class_labels_1).
     err_bind (quadrant env 2 image_file_list image_dir label_dir mo_w mo_h scale_x scale_y
                 min_area min_visibility st)
       (\<lambda>(st, bboxes_2_new, class_labels_2).
     err_bind (quadrant env 3 image_file_list image_dir label_dir mo_w mo_h scale_x scale_y
                 min_area min_visibility st)
       (\<lambda>(st, bboxes_3_new, class_labels_3).
         Inr (snd st,
              bboxes_0_new @ bboxes_1_new @ bboxes_2_new @ bboxes_3_new,
              class_labels_0 @ class_labels_1 @ class_labels_2 @ class_labels_3))))))"

text \<open>
  Modelled from the spec: the two writers of \<^verbatim>\<open>utils\<close> (ImageStore.write and
  LabelStore.write of section 6), absent from the sources. The output store maps a path
  to what was written there.
\<close>

record 'l store =
  image_files :: "string \<rightharpoonup> image"
  label_files :: "string \<rightharpoonup> (real list list \<times> 'l list)"

definition save_img :: "image \<Rightarrow> string \<Rightarrow> 'l store \<Rightarrow> 'l store" where
  "save_img img path s = s\<lparr>image_files := (image_files s)(path \<mapsto> img)\<rparr>"

definition save_label :: "real list list \<Rightarrow> 'l list \<Rightarrow> string \<Rightarrow> 'l store \<Rightarrow> 'l store" where
  "save_label bboxes class_labels path s =
     s\<lparr>label_files := (label_files s)(path \<mapsto> (bboxes, class_labels))\<rparr>"

text \<open>
  \<^verbatim>\<open>mosaic\<close>: an exception anywhere leaves the store as it was, since both writes come
  last. The optional display of the result only reads the two files and is left out.
\<close>

definition mosaic ::
  "('g, 'l) collaborators \<Rightarrow> 'g \<Rightarrow> (nat \<Rightarrow> nat \<Rightarrow> pixel) \<Rightarrow> string list \<Rightarrow> string \<Rightarrow> string \<Rightarrow>
   string \<Rightarrow> string \<Rightarrow> int \<Rightarrow> int \<Rightarrow> real \<Rightarrow> real \<Rightarrow> int \<Rightarrow> real \<Rightarrow> 'l store \<Rightarrow> error option \<times> 'l store" where
  "mosaic env g junk image_file_list image_dir label_dir output_image_dir output_label_dir
      mo_w mo_h scale_x scale_y min_area min_visibility s =
     (case mosaic_compose env g junk image_file_list image_dir label_dir mo_w mo_h
             scale_x scale_y min_area min_visibility of
        Inl e \<Rightarrow> (Some e, s)
      | Inr (new_img, new_bboxes, new_class_labels) \<Rightarrow>
          (case create_data_store_path output_image_dir output_label_dir image_file_list of
             Inl e \<Rightarrow> (Some e, s)
           | Inr (image_store_path, label_store_path) \<Rightarrow>
               (None, save_label new_bboxes new_class_labels label_store_path
                        (save_img new_img image_store_path s))))"

text \<open>
  A concrete set of collaborators on which the theorems below are instantiated: paths
  are the file names themselves, the label file \<open>blank\<close> holds no object and every other
  one holds one box of class 7, and the transform returns an image of the expected size
  (refusing a non-positive one) and keeps the boxes it is given.
\<close>

definition fixture_env :: "(nat, nat) collaborators" where
  "fixture_env =
     \<lparr>preprocess = (\<lambda>name idir ldir. Inr (name, name)),
      read_label = (\<lambda>p. if p = ''blank'' then Inr ([], []) else Inr ([(1/2, 1/2, 1/5, 1/5)], [7])),
      read_img = (\<lambda>p. Inr \<lparr>height = 2, width = 2, pix = (\<lambda>r c. (1, 2, 3))\<rparr>),
      compose = (\<lambda>h w ma mv.
        if h \<le> 0 \<or> w \<le> 0 then Inl InvalidGeometry
        else Inr (\<lambda>g img bs ls.
               (Inr (\<lparr>height = nat h, width = nat w, pix = (\<lambda>r c. pix img 0 0)\<rparr>, bs, ls), Suc g)))\<rparr>"

text \<open>A canvas of four rows and four columns, as \<^verbatim>\<open>np.empty\<close> could return it.\<close>

definition fixture_canvas :: image where
  "fixture_canvas = \<lparr>height = 4, width = 4, pix = (\<lambda>r c. (0, 0, 0))\<rparr>"

text \<open>The image the fixture's cropper returns for a target of two by two, and an empty output store.\<close>

definition fixture_patch :: image where
  "fixture_patch = \<lparr>height = 2, width = 2, pix = (\<lambda>r c. (1, 2, 3))\<rparr>"

definition fixture_store :: "nat store" where
  "fixture_store = \<lparr>image_files = Map.empty, label_files = Map.empty\<rparr>"

text \<open>The list the remap loop leaves for one box: slots 0 to 3.\<close>

definition remapped :: "nat \<Rightarrow> real \<Rightarrow> real \<Rightarrow> bbox \<Rightarrow> real list" where
  "remapped q scale_x scale_y box =
     [new_x q scale_x box, new_y q scale_y box, new_w q scale_x box, new_h q scale_y box]"

section \<open>Properties of the remap loop\<close>

lemma set_item_at_end:
  "k < length row \<Longrightarrow>
   set_item (pre @ row # rest) (length pre) k v = Inr (pre @ row[k := v] # rest)"
  by (simp add: set_item_def)

text \<open>
  The loop invariant: when the loop reaches index \<open>length pre\<close>, the rows before it are
  final and the rows from it on are still zero.
\<close>

lemma remap_loop_enumerate:
  "remap_loop q sx sy (enumerate (length pre) bs) (pre @ replicate (length bs) [0, 0, 0, 0]) =
   Inr (pre @ map (remapped q sx sy) bs)"
proof (induction bs arbitrary: pre)
  case Nil
  then show ?case by simp
next
  case (Cons b bs)
  have "remap_loop q sx sy (enumerate (Suc (length pre)) bs)
          ((pre @ [remapped q sx sy b]) @ replicate (length bs) [0, 0, 0, 0]) =
        Inr ((pre @ [remapped q sx sy b]) @ map (remapped q sx sy) bs)"
    using Cons.IH [of "pre @ [remapped q sx sy b]"] by simp
  then show ?case
    by (simp add: set_item_at_end remapped_def)
qed

lemma remap_bboxes_map:
  "remap_bboxes q sx sy bs = Inr (map (remapped q sx sy) bs)"
  using remap_loop_enumerate [of q sx sy "[]" bs]
  by (cases bs) (simp_all add: remap_bboxes_def fresh_boxes_def)

text \<open>Scaling a coordinate in the unit interval by a fraction, with and without offset.\<close>

lemma unit_scaled:
  fixes a s :: real
  assumes "0 \<le> a" "a \<le> 1" "0 < s" "s < 1"
  shows "0 \<le> a * s" "a * s \<le> 1" "0 \<le> a * (1 - s) + s" "a * (1 - s) + s \<le> 1"
proof -
  show "0 \<le> a * s" using assms by simp
  show "a * s \<le> 1" using assms by (intro mult_le_one) simp_all
  have "0 \<le> a * (1 - s)" using assms by simp
  then show "0 \<le> a * (1 - s) + s" using assms by simp
  have "a * (1 - s) \<le> 1 - s"
    using assms mult_left_le_one_le [of "1 - s" a] by simp
  then show "a * (1 - s) + s \<le> 1" by simp
qed

lemma unit_extent_scaled:
  fixes a s :: real
  assumes "0 < a" "a \<le> 1" "0 < s" "s < 1"
  shows "0 < a * s" "a * s \<le> 1" "0 < a * (1 - s)" "a * (1 - s) \<le> 1"
proof -
  show "0 < a * s" using assms by simp
  show "a * s \<le> 1" using assms by (intro mult_le_one) simp_all
  show "0 < a * (1 - s)" using assms by simp
  show "a * (1 - s) \<le> 1" using assms by (intro mult_le_one) simp_all
qed

section \<open>The regions of the canvas\<close>

text \<open>
  The two slices of an axis at the same bound are complementary whatever the bound is,
  so the four regions never overlap and always cover the canvas.
\<close>

lemma clip_index_le: "clip_index n d \<le> n"
  by (auto simp: clip_index_def nat_le_iff)

lemma clip_index_inside: "0 \<le> d \<Longrightarrow> d \<le> int n \<Longrightarrow> clip_index n d = nat d"
  by (simp add: clip_index_def)

lemma region_set_cases:
  "region_set q a dx dy =
     (if q = 0 then {(r, c). r < clip_index (height a) dy \<and> c < clip_index (width a) dx}
      else if q = 1 then {(r, c). r < clip_index (height a) dy \<and>
                                  clip_index (width a) dx \<le> c \<and> c < width a}
      else if q = 2 then {(r, c). clip_index (height a) dy \<le> r \<and> r < height a \<and>
                                  c < clip_index (width a) dx}
      else {(r, c). clip_index (height a) dy \<le> r \<and> r < height a \<and>
                    clip_index (width a) dx \<le> c \<and> c < width a})"
  by (simp add: region_set_def region_def slice_to_def slice_from_def in_span_def)

lemma less_4_cases: "(q::nat) < 4 \<Longrightarrow> q = 0 \<or> q = 1 \<or> q = 2 \<or> q = 3"
  by arith

lemma region_disjoint:
  assumes "i < 4" "j < 4" "i \<noteq> j"
  shows "region_set i a dx dy \<inter> region_set j a dx dy = {}"
  using less_4_cases [OF assms(1)] less_4_cases [OF assms(2)] assms(3)
  by (auto simp: region_set_cases)

lemma region_cover:
  "(\<Union>q<4. region_set q a dx dy) = {(r, c). r < height a \<and> c < width a}"
proof -
  have four: "{..<4::nat} = {0, 1, 2, 3}" by auto
  have r: "clip_index (height a) dy \<le> height a" and c: "clip_index (width a) dx \<le> width a"
    by (rule clip_index_le)+
  show ?thesis
    unfolding four using r c by (auto simp: region_set_cases)
qed

text \<open>For a positive size and a fraction in the open unit interval the split point is the floor of the product and lies inside the axis.\<close>

lemma py_int_floor: "0 \<le> r \<Longrightarrow> py_int r = \<lfloor>r\<rfloor>"
  by (simp add: py_int_def)

lemma div_point_bounds:
  fixes m :: int and s :: real
  assumes "0 < m" "0 < s" "s < 1"
  shows "py_int (real_of_int m * s) = \<lfloor>real_of_int m * s\<rfloor>"
    and "0 \<le> py_int (real_of_int m * s)" and "py_int (real_of_int m * s) < m"
proof -
  have nn: "0 \<le> real_of_int m * s" using assms by simp
  then show eq: "py_int (real_of_int m * s) = \<lfloor>real_of_int m * s\<rfloor>" by (rule py_int_floor)
  from nn show "0 \<le> py_int (real_of_int m * s)" by (simp add: eq)
  have "real_of_int m * s < real_of_int m * 1"
    using assms by (intro mult_strict_left_mono) simp_all
  then have "\<lfloor>real_of_int m * s\<rfloor> < m" by (simp add: floor_less_iff)
  then show "py_int (real_of_int m * s) < m" by (simp add: eq)
qed


text \<open>An assignment to a block keeps the shape and every pixel outside the block.\<close>

lemma assign_region_frame:
  assumes "assign_region a reg v = Inr a'"
  shows "height a' = height a" and "width a' = width a"
    and "\<not> (in_span (fst reg) r \<and> in_span (snd reg) c) \<Longrightarrow> pix a' r c = pix a r c"
  using assms by (auto simp: assign_region_def Let_def split: if_splits)

section \<open>One quadrant, and the four in sequence\<close>

lemma err_bind_Inr_iff:
  "err_bind m f = Inr y \<longleftrightarrow> (\<exists>x. m = Inr x \<and> f x = Inr y)"
  by (cases m) simp_all

lemma quadrant_after_crop:
  assumes "q < length files"
    and "random_crop_savebboxes env g (files ! q) idir ldir (target_h q mo_h sy) (target_w q mo_w sx)
           ma mv = (Inr (img, bboxes, class_labels), g')"
  shows "quadrant env q files idir ldir mo_w mo_h sx sy ma mv (g, canvas) =
     err_bind (assign_region canvas (region q canvas (div_point_x mo_w sx) (div_point_y mo_h sy)) img)
       (\<lambda>new_img. Inr ((g', new_img), map (remapped q sx sy) bboxes, class_labels))"
  using assms by (simp add: quadrant_def list_get_def remap_bboxes_map)

lemma quadrant_InrD:
  assumes "quadrant env q files idir ldir mo_w mo_h sx sy ma mv (g, canvas) = Inr ((g', canvas'), bn, lo)"
  shows "\<exists>img bboxes.
     q < length files \<and>
     random_crop_savebboxes env g (files ! q) idir ldir (target_h q mo_h sy) (target_w q mo_w sx)
       ma mv = (Inr (img, bboxes, lo), g') \<and>
     assign_region canvas (region q canvas (div_point_x mo_w sx) (div_point_y mo_h sy)) img = Inr canvas' \<and>
     bn = map (remapped q sx sy) bboxes"
  using assms
  by (auto simp: quadrant_def list_get_def remap_bboxes_map err_bind_Inr_iff
      split: if_splits prod.splits sum.splits)

lemma quadrant_crop_result:
  assumes "quadrant env q files idir ldir mo_w mo_h sx sy ma mv (g, canvas) = Inr (st', bn, lo)"
    and "random_crop_savebboxes env g (files ! q) idir ldir (target_h q mo_h sy) (target_w q mo_w sx)
           ma mv = (Inr (img, bboxes, class_labels), g')"
  shows "fst st' = g'" and "bn = map (remapped q sx sy) bboxes" and "lo = class_labels"
  using quadrant_InrD [of env q files idir ldir mo_w mo_h sx sy ma mv g canvas "fst st'" "snd st'" bn lo]
    assms
  by auto

lemma mosaic_compose_InrD:
  assumes "mosaic_compose env g junk files idir ldir mo_w mo_h sx sy ma mv = Inr (new_img, bb, ll)"
  shows "\<exists>c0 st1 b0 l0 st2 b1 l1 st3 b2 l2 st4 b3 l3.
     np_empty mo_h mo_w junk = Inr c0 \<and>
     quadrant env 0 files idir ldir mo_w mo_h sx sy ma mv (g, c0) = Inr (st1, b0, l0) \<and>
     quadrant env 1 files idir ldir mo_w mo_h sx sy ma mv st1 = Inr (st2, b1, l1) \<and>
     quadrant env 2 files idir ldir mo_w mo_h sx sy ma mv st2 = Inr (st3, b2, l2) \<and>
     quadrant env 3 files idir ldir mo_w mo_h sx sy ma mv st3 = Inr (st4, b3, l3) \<and>
     new_img = snd st4 \<and> bb = b0 @ b1 @ b2 @ b3 \<and> ll = l0 @ l1 @ l2 @ l3"
  using assms
  by (auto simp: mosaic_compose_def err_bind_Inr_iff)

text \<open>
  With a canvas of positive size, scale fractions in the open unit interval and a crop of
  exactly the target size, the copy into the canvas fits and the quadrant ends without
  error.
\<close>

lemma quadrant_write_fits:
  assumes "0 < mo_w" "0 < mo_h" "0 < sx" "sx < 1" "0 < sy" "sy < 1"
    and shape: "height canvas = nat mo_h" "width canvas = nat mo_w"
    and img: "height img = nat (target_h q mo_h sy)" "width img = nat (target_w q mo_w sx)"
  shows "\<exists>canvas'. assign_region canvas
           (region q canvas (div_point_x mo_w sx) (div_point_y mo_h sy)) img = Inr canvas'"
proof -
  have x: "0 \<le> div_point_x mo_w sx" "div_point_x mo_w sx < mo_w"
    using div_point_bounds [OF assms(1,3,4)] by (simp_all add: div_point_x_def)
  have y: "0 \<le> div_point_y mo_h sy" "div_point_y mo_h sy < mo_h"
    using div_point_bounds [OF assms(2,5,6)] by (simp_all add: div_point_y_def)
  have cx: "clip_index (nat mo_w) (div_point_x mo_w sx) = nat (div_point_x mo_w sx)"
    using x by (simp add: clip_index_inside)
  have cy: "clip_index (nat mo_h) (div_point_y mo_h sy) = nat (div_point_y mo_h sy)"
    using y by (simp add: clip_index_inside)
  have wd: "nat mo_w - nat (div_point_x mo_w sx) = nat (mo_w - div_point_x mo_w sx)"
    using x by simp
  have hd: "nat mo_h - nat (div_point_y mo_h sy) = nat (mo_h - div_point_y mo_h sy)"
    using y by simp
  show ?thesis
    by (simp add: assign_region_def Let_def region_def slice_to_def slice_from_def shape img
        cx cy wd hd target_w_def target_h_def)
qed

lemma quadrant_succeeds:
  assumes "0 < mo_w" "0 < mo_h" "0 < sx" "sx < 1" "0 < sy" "sy < 1"
    and shape: "height canvas = nat mo_h" "width canvas = nat mo_w"
    and len: "q < length files"
    and crop: "random_crop_savebboxes env g (files ! q) idir ldir (target_h q mo_h sy)
                 (target_w q mo_w sx) ma mv = (Inr (img, bboxes, class_labels), g')"
    and img: "height img = nat (target_h q mo_h sy)" "width img = nat (target_w q mo_w sx)"
  shows "\<exists>canvas'. quadrant env q files idir ldir mo_w mo_h sx sy ma mv (g, canvas) =
           Inr ((g', canvas'), map (remapped q sx sy) bboxes, class_labels) \<and>
         height canvas' = nat mo_h \<and> width canvas' = nat mo_w"
proof -
  from quadrant_write_fits [OF assms(1-6) shape img] obtain canvas' where
    w: "assign_region canvas (region q canvas (div_point_x mo_w sx) (div_point_y mo_h sy)) img =
          Inr canvas'"
    by blast
  have "quadrant env q files idir ldir mo_w mo_h sx sy ma mv (g, canvas) =
           Inr ((g', canvas'), map (remapped q sx sy) bboxes, class_labels)"
    by (simp add: quadrant_after_crop [OF len crop] w)
  with assign_region_frame(1,2) [OF w] shape show ?thesis by simp
qed

lemma mosaic_compose_succeeds:
  assumes geo: "0 < mo_w" "0 < mo_h" "0 < sx" "sx < 1" "0 < sy" "sy < 1"
    and len: "4 \<le> length files"
    and c0: "random_crop_savebboxes env g (files ! 0) idir ldir (target_h 0 mo_h sy) (target_w 0 mo_w sx)
               ma mv = (Inr (img0, bs0, ls0), g1)"
    and i0: "height img0 = nat (target_h 0 mo_h sy)" "width img0 = nat (target_w 0 mo_w sx)"
    and c1: "random_crop_savebboxes env g1 (files ! 1) idir ldir (target_h 1 mo_h sy) (target_w 1 mo_w sx)
               ma mv = (Inr (img1, bs1, ls1), g2)"
    and i1: "height img1 = nat (target_h 1 mo_h sy)" "width img1 = nat (target_w 1 mo_w sx)"
    and c2: "random_crop_savebboxes env g2 (files ! 2) idir ldir (target_h 2 mo_h sy) (target_w 2 mo_w sx)
               ma mv = (Inr (img2, bs2, ls2), g3)"
    and i2: "height img2 = nat (target_h 2 mo_h sy)" "width img2 = nat (target_w 2 mo_w sx)"
    and c3: "random_crop_savebboxes env g3 (files ! 3) idir ldir (target_h 3 mo_h sy) (target_w 3 mo_w sx)
               ma mv = (Inr (img3, bs3, ls3), g4)"
    and i3: "height img3 = nat (target_h 3 mo_h sy)" "width img3 = nat (target_w 3 mo_w sx)"
  shows "\<exists>new_img. mosaic_compose env g junk files idir ldir mo_w mo_h sx sy ma mv =
           Inr (new_img,
                map (remapped 0 sx sy) bs0 @ map (remapped 1 sx sy) bs1 @
                map (remapped 2 sx sy) bs2 @ map (remapped 3 sx sy) bs3,
                ls0 @ ls1 @ ls2 @ ls3)"
proof -
  have l: "0 < length files" "1 < length files" "2 < length files" "3 < length files"
    using len by linarith+
  have e: "np_empty mo_h mo_w junk = Inr \<lparr>height = nat mo_h, width = nat mo_w, pix = junk\<rparr>"
    using geo(1,2) by (simp add: np_empty_def)
  from quadrant_succeeds [OF geo _ _ l(1) c0 i0, of "\<lparr>height = nat mo_h, width = nat mo_w, pix = junk\<rparr>"]
  obtain k1 where q0: "quadrant env 0 files idir ldir mo_w mo_h sx sy ma mv
        (g, \<lparr>height = nat mo_h, width = nat mo_w, pix = junk\<rparr>) =
      Inr ((g1, k1), map (remapped 0 sx sy) bs0, ls0)" and s1: "height k1 = nat mo_h" "width k1 = nat mo_w"
    by auto
  from quadrant_succeeds [OF geo s1 l(2) c1 i1]
  obtain k2 where q1: "quadrant env 1 files idir ldir mo_w mo_h sx sy ma mv (g1, k1) =
      Inr ((g2, k2), map (remapped 1 sx sy) bs1, ls1)" and s2: "height k2 = nat mo_h" "width k2 = nat mo_w"
    by auto
  from quadrant_succeeds [OF geo s2 l(3) c2 i2]
  obtain k3 where q2: "quadrant env 2 files idir ldir mo_w mo_h sx sy ma mv (g2, k2) =
      Inr ((g3, k3), map (remapped 2 sx sy) bs2, ls2)" and s3: "height k3 = nat mo_h" "width k3 = nat mo_w"
    by auto
  from quadrant_succeeds [OF geo s3 l(4) c3 i3]
  obtain k4 where q3: "quadrant env 3 files idir ldir mo_w mo_h sx sy ma mv (g3, k3) =
      Inr ((g4, k4), map (remapped 3 sx sy) bs3, ls3)"
    by auto
  show ?thesis
    by (simp add: mosaic_compose_def e q0 q1 q2 q3 del: One_nat_def)
qed













section \<open>Properties of the output paths\<close>

text \<open>The first piece of a split is the prefix before the first separator.\<close>

lemma py_split_nonempty: "py_split sep s \<noteq> []"
  by (induction s) (auto split: list.splits)

lemma base_name_ok:
  "k < length fl \<Longrightarrow> base_name fl k = Inr (hd (py_split (CHR ''.'') (fl ! k)))"
  using py_split_nonempty [of "CHR ''.''" "fl ! k"]
  by (cases "py_split (CHR ''.'') (fl ! k)") (simp_all add: base_name_def list_get_def)

lemma py_split_first: "hd (py_split sep s) = takeWhile (\<lambda>c. c \<noteq> sep) s"
  using py_split_nonempty [of sep]
  by (induction s) (auto split: list.splits)

lemma base_name_prefix:
  "k < length fl \<Longrightarrow> base_name fl k = Inr (takeWhile (\<lambda>c. c \<noteq> CHR ''.'') (fl ! k))"
  by (simp add: base_name_ok py_split_first)

lemma create_data_store_path_ok:
  assumes "4 \<le> length fl"
  shows "\<exists>ip lp. create_data_store_path odi odl fl = Inr (ip, lp)"
proof -
  have "0 < length fl" "1 < length fl" "2 < length fl" "3 < length fl"
    using assms by linarith+
  then show ?thesis
    by (simp add: create_data_store_path_def mo_name_def base_name_ok)
qed

lemma create_data_store_path_four:
  "create_data_store_path odi odl [n0, n1, n2, n3] =
     Inr (odi @ ''/mo_'' @ takeWhile (\<lambda>c. c \<noteq> CHR ''.'') n0 @ ''_'' @
            takeWhile (\<lambda>c. c \<noteq> CHR ''.'') n1 @ ''_'' @ takeWhile (\<lambda>c. c \<noteq> CHR ''.'') n2 @ ''_'' @
            takeWhile (\<lambda>c. c \<noteq> CHR ''.'') n3 @ ''.jpg'',
          odl @ ''/mo_'' @ takeWhile (\<lambda>c. c \<noteq> CHR ''.'') n0 @ ''_'' @
            takeWhile (\<lambda>c. c \<noteq> CHR ''.'') n1 @ ''_'' @ takeWhile (\<lambda>c. c \<noteq> CHR ''.'') n2 @ ''_'' @
            takeWhile (\<lambda>c. c \<noteq> CHR ''.'') n3 @ ''.txt'')"
  by (simp add: create_data_store_path_def mo_name_def base_name_prefix)

text \<open>On a name with a single dot, that prefix is the name without its extension.\<close>

lemma spec_base_single_dot:
  assumes "CHR ''.'' \<notin> set b" "CHR ''.'' \<notin> set e"
  shows "spec_base (b @ ''.'' @ e) = b" "takeWhile (\<lambda>c. c \<noteq> CHR ''.'') (b @ ''.'' @ e) = b"
proof -
  have "dropWhile (\<lambda>c. c \<noteq> CHR ''.'') (rev e @ CHR ''.'' # rev b) = CHR ''.'' # rev b"
    using assms(2) by (auto simp: dropWhile_append3)
  then show "spec_base (b @ ''.'' @ e) = b"
    by (simp add: spec_base_def)
  show "takeWhile (\<lambda>c. c \<noteq> CHR ''.'') (b @ ''.'' @ e) = b"
    using assms(1) by (auto simp: takeWhile_tail)
qed

section \<open>The fixture, evaluated\<close>

lemma fixture_crop:
  "0 < h \<Longrightarrow> 0 < w \<Longrightarrow>
   random_crop_savebboxes fixture_env g name idir ldir h w ma mv =
     (Inr (\<lparr>height = nat h, width = nat w, pix = (\<lambda>r c. (1, 2, 3))\<rparr>,
           if name = ''blank'' then ([], []) else ([(1/2, 1/2, 1/5, 1/5)], [7])), Suc g)"
  by (simp add: random_crop_savebboxes_def fixture_env_def)


lemma div_point_half: "div_point_x 4 (1/2) = 2" "div_point_y 4 (1/2) = 2"
  by (simp_all add: div_point_x_def div_point_y_def py_int_def)

lemma target_half:
  "target_w q 4 (1/2) = 2" "target_h q 4 (1/2) = 2"
  by (simp_all add: target_w_def target_h_def div_point_half)

lemma fixture_crop_half:
  "random_crop_savebboxes fixture_env g name idir ldir (target_h q 4 (1/2)) (target_w q 4 (1/2)) ma mv =
     (Inr (fixture_patch, if name = ''blank'' then ([], []) else ([(1/2, 1/2, 1/5, 1/5)], [7])), Suc g)"
  by (simp add: fixture_crop target_half fixture_patch_def)

lemma fixture_patch_shape:
  "height fixture_patch = nat (target_h q 4 (1/2))" "width fixture_patch = nat (target_w q 4 (1/2))"
  by (simp_all add: fixture_patch_def target_half)



section \<open>The claims\<close>

text \<open>
  Claim C1. For a quadrant \<open>q\<close> in 0..3 and a box \<open>(x, y, w, h)\<close> at index \<open>j\<close> of the
  list returned by that quadrant's crop, the remap loop ends without error and leaves at
  index \<open>j\<close> the list \<open>[x', y', w', h']\<close> given by the quadrant's affine maps: top-left
  \<open>(x sx, y sy, w sx, h sy)\<close>, top-right \<open>(x (1 - sx) + sx, y sy, w (1 - sx), h sy)\<close>,
  bottom-left \<open>(x sx, y (1 - sy) + sy, w sx, h (1 - sy))\<close>, bottom-right
  \<open>(x (1 - sx) + sx, y (1 - sy) + sy, w (1 - sx), h (1 - sy))\<close>.
\<close>

theorem remap_by_quadrant:
  assumes "j < length bboxes" and "bboxes ! j = (x, y, w, h)" and "q < 4"
  shows "\<exists>out. remap_bboxes q sx sy bboxes = Inr out \<and> out ! j =
     (if q = 0 then [x * sx, y * sy, w * sx, h * sy]
      else if q = 1 then [x * (1 - sx) + sx, y * sy, w * (1 - sx), h * sy]
      else if q = 2 then [x * sx, y * (1 - sy) + sy, w * sx, h * (1 - sy)]
      else [x * (1 - sx) + sx, y * (1 - sy) + sy, w * (1 - sx), h * (1 - sy)])"
  using assms
  by (simp add: remap_bboxes_map remapped_def new_x_def new_y_def new_w_def new_h_def)

theorem remap_by_quadrant_witness:
  "(0::nat) < length [(1/2, 1/2, 1/5, 1/5) :: bbox] \<and>
   [(1/2, 1/2, 1/5, 1/5) :: bbox] ! 0 = (1/2, 1/2, 1/5, 1/5) \<and> (1::nat) < 4 \<and>
   (\<exists>out. remap_bboxes 1 (2/5) (3/5) [(1/2, 1/2, 1/5, 1/5)] = Inr out \<and>
      out ! 0 = [7/10, 3/10, 3/25, 3/25])"
  using remap_by_quadrant [of 0 "[(1/2, 1/2, 1/5, 1/5)]" "1/2" "1/2" "1/5" "1/5" 1 "2/5" "3/5"]
  by simp

text \<open>
  Claim C2. On a canvas of 800 by 800 with scale fractions 0.4 and 0.6 the split point is
  (320, 480), the four quadrants have the target sizes (width, height) (320, 480),
  (480, 480), (320, 320) and (480, 320), and the top-right box (0.5, 0.5, 0.2, 0.2) is
  remapped to x_center 0.7, y_center 0.3, width 0.12 and height 0.12.
\<close>

theorem example_800:
  "div_point_x 800 0.4 = 320 \<and> div_point_y 800 0.6 = 480 \<and>
   (target_w 0 800 0.4, target_h 0 800 0.6) = (320, 480) \<and>
   (target_w 1 800 0.4, target_h 1 800 0.6) = (480, 480) \<and>
   (target_w 2 800 0.4, target_h 2 800 0.6) = (320, 320) \<and>
   (target_w 3 800 0.4, target_h 3 800 0.6) = (480, 320) \<and>
   remap_bboxes 1 0.4 0.6 [(0.5, 0.5, 0.2, 0.2)] = Inr [[0.7, 0.3, 0.12, 0.12]]"
  by (simp add: div_point_x_def div_point_y_def py_int_def target_w_def target_h_def
        remap_bboxes_def fresh_boxes_def set_item_def new_x_def new_y_def new_w_def new_h_def
        enumerate_eq_zip)

text \<open>
  Claim C3. For a canvas of positive width and height and scale fractions strictly
  between 0 and 1, the split point is \<open>(floor (mo_w * sx), floor (mo_h * sy))\<close>; the
  four regions the quadrants assign to are rows \<open>[0, dy)\<close> by columns \<open>[0, dx)\<close>, rows
  \<open>[0, dy)\<close> by columns \<open>[dx, mo_w)\<close>, rows \<open>[dy, mo_h)\<close> by columns \<open>[0, dx)\<close> and rows
  \<open>[dy, mo_h)\<close> by columns \<open>[dx, mo_w)\<close>; they are pairwise disjoint and their union is the
  whole canvas; and the target widths \<open>dx\<close> and \<open>mo_w - dx\<close> add up to the canvas width, the
  target heights \<open>dy\<close> and \<open>mo_h - dy\<close> to the canvas height.
\<close>

theorem quadrants_tile_canvas:
  assumes "0 < mo_w" "0 < mo_h" "0 < sx" "sx < 1" "0 < sy" "sy < 1"
    and "np_empty mo_h mo_w junk = Inr canvas"
    and "dx = div_point_x mo_w sx" and "dy = div_point_y mo_h sy"
  shows "dx = \<lfloor>real_of_int mo_w * sx\<rfloor> \<and> dy = \<lfloor>real_of_int mo_h * sy\<rfloor> \<and>
    region_set 0 canvas dx dy = {0..<nat dy} \<times> {0..<nat dx} \<and>
    region_set 1 canvas dx dy = {0..<nat dy} \<times> {nat dx..<nat mo_w} \<and>
    region_set 2 canvas dx dy = {nat dy..<nat mo_h} \<times> {0..<nat dx} \<and>
    region_set 3 canvas dx dy = {nat dy..<nat mo_h} \<times> {nat dx..<nat mo_w} \<and>
    (\<forall>i<4. \<forall>j<4. i \<noteq> j \<longrightarrow> region_set i canvas dx dy \<inter> region_set j canvas dx dy = {}) \<and>
    (\<Union>q<4. region_set q canvas dx dy) = {0..<nat mo_h} \<times> {0..<nat mo_w} \<and>
    target_w 0 mo_w sx = dx \<and> target_w 1 mo_w sx = mo_w - dx \<and>
    target_w 2 mo_w sx = dx \<and> target_w 3 mo_w sx = mo_w - dx \<and>
    target_h 0 mo_h sy = dy \<and> target_h 1 mo_h sy = dy \<and>
    target_h 2 mo_h sy = mo_h - dy \<and> target_h 3 mo_h sy = mo_h - dy \<and>
    dx + (mo_w - dx) = mo_w \<and> dy + (mo_h - dy) = mo_h"
proof -
  have shape: "height canvas = nat mo_h" "width canvas = nat mo_w"
    using assms(1,2,7) by (auto simp: np_empty_def)
  have x: "dx = \<lfloor>real_of_int mo_w * sx\<rfloor>" "0 \<le> dx" "dx < mo_w"
    using div_point_bounds [OF assms(1,3,4)] by (simp_all add: assms(8) div_point_x_def)
  have y: "dy = \<lfloor>real_of_int mo_h * sy\<rfloor>" "0 \<le> dy" "dy < mo_h"
    using div_point_bounds [OF assms(2,5,6)] by (simp_all add: assms(9) div_point_y_def)
  have cx: "clip_index (nat mo_w) dx = nat dx"
    using x(2,3) by (simp add: clip_index_inside)
  have cy: "clip_index (nat mo_h) dy = nat dy"
    using y(2,3) by (simp add: clip_index_inside)
  have r0: "region_set 0 canvas dx dy = {0..<nat dy} \<times> {0..<nat dx}"
    by (auto simp: region_set_cases shape cx cy)
  have r1: "region_set 1 canvas dx dy = {0..<nat dy} \<times> {nat dx..<nat mo_w}"
    by (auto simp: region_set_cases cx cy shape)
  have r2: "region_set 2 canvas dx dy = {nat dy..<nat mo_h} \<times> {0..<nat dx}"
    by (auto simp: region_set_cases cx cy shape)
  have r3: "region_set 3 canvas dx dy = {nat dy..<nat mo_h} \<times> {nat dx..<nat mo_w}"
    by (auto simp: region_set_cases cx cy shape)
  have dis: "\<forall>i<4. \<forall>j<4. i \<noteq> j \<longrightarrow> region_set i canvas dx dy \<inter> region_set j canvas dx dy = {}"
    by (simp add: region_disjoint)
  have cov: "(\<Union>q<4. region_set q canvas dx dy) = {0..<nat mo_h} \<times> {0..<nat mo_w}"
    unfolding region_cover by (auto simp: shape)
  have tw: "target_w 0 mo_w sx = dx \<and> target_w 1 mo_w sx = mo_w - dx \<and>
    target_w 2 mo_w sx = dx \<and> target_w 3 mo_w sx = mo_w - dx"
    by (simp add: target_w_def assms(8))
  have th: "target_h 0 mo_h sy = dy \<and> target_h 1 mo_h sy = dy \<and>
    target_h 2 mo_h sy = mo_h - dy \<and> target_h 3 mo_h sy = mo_h - dy"
    by (simp add: target_h_def assms(9))
  from x(1) y(1) r0 r1 r2 r3 dis cov tw th show ?thesis by simp
qed

theorem quadrants_tile_canvas_witness:
  "(0::int) < 4 \<and> (0::real) < 1/2 \<and> (1/2::real) < 1 \<and>
   np_empty 4 4 (\<lambda>r c. (0, 0, 0)) = Inr fixture_canvas \<and>
   (2::int) = div_point_x 4 (1/2) \<and> (2::int) = div_point_y 4 (1/2) \<and>
   (2::int) = \<lfloor>real_of_int 4 * (1/2)\<rfloor> \<and>
   region_set 0 fixture_canvas 2 2 = {0..<nat 2} \<times> {0..<nat 2} \<and>
   region_set 3 fixture_canvas 2 2 = {nat 2..<nat 4} \<times> {nat 2..<nat 4} \<and>
   region_set 0 fixture_canvas 2 2 \<inter> region_set 3 fixture_canvas 2 2 = {} \<and>
   (\<Union>q<4. region_set q fixture_canvas 2 2) = {0..<nat 4} \<times> {0..<nat 4} \<and>
   target_w 0 4 (1/2) + target_w 1 4 (1/2) = 4 \<and> target_h 1 4 (1/2) + target_h 3 4 (1/2) = 4"
proof -
  have pos: "(0::int) < 4" and s: "(0::real) < 1/2" "(1/2::real) < 1" by simp_all
  have canvas: "np_empty 4 4 (\<lambda>r c. (0, 0, 0)) = Inr fixture_canvas"
    by (simp add: np_empty_def fixture_canvas_def)
  have dx: "(2::int) = div_point_x 4 (1/2)" and dy: "(2::int) = div_point_y 4 (1/2)"
    by (simp_all add: div_point_half)
  note t = quadrants_tile_canvas [OF pos pos s s canvas dx dy]
  from t have "\<forall>i<4. \<forall>j<4. i \<noteq> j \<longrightarrow>
      region_set i fixture_canvas 2 2 \<inter> region_set j fixture_canvas 2 2 = {}"
    by (elim conjE)
  then have d: "region_set 0 fixture_canvas 2 2 \<inter> region_set 3 fixture_canvas 2 2 = {}"
    by simp
  from t d pos s canvas dx dy show ?thesis by simp
qed

text \<open>
  Claim C4. A box with centre coordinates in \<open>[0, 1]\<close> and extents in \<open>(0, 1]\<close> is
  remapped, in every quadrant and for scale fractions strictly between 0 and 1, to a box
  with centre coordinates in \<open>[0, 1]\<close> and extents in \<open>(0, 1]\<close>.
\<close>

theorem remap_keeps_unit_range:
  assumes "j < length bboxes" and "bboxes ! j = (x, y, w, h)"
    and "0 \<le> x" "x \<le> 1" "0 \<le> y" "y \<le> 1" "0 < w" "w \<le> 1" "0 < h" "h \<le> 1"
    and "0 < sx" "sx < 1" "0 < sy" "sy < 1"
  shows "\<exists>out x' y' w' h'. remap_bboxes q sx sy bboxes = Inr out \<and> out ! j = [x', y', w', h'] \<and>
           0 \<le> x' \<and> x' \<le> 1 \<and> 0 \<le> y' \<and> y' \<le> 1 \<and> 0 < w' \<and> w' \<le> 1 \<and> 0 < h' \<and> h' \<le> 1"
proof -
  have out: "remap_bboxes q sx sy bboxes = Inr (map (remapped q sx sy) bboxes)"
    by (rule remap_bboxes_map)
  have at: "map (remapped q sx sy) bboxes ! j =
      [new_x q sx (x, y, w, h), new_y q sy (x, y, w, h), new_w q sx (x, y, w, h), new_h q sy (x, y, w, h)]"
    using assms(1,2) by (simp add: remapped_def)
  have x: "0 \<le> new_x q sx (x, y, w, h) \<and> new_x q sx (x, y, w, h) \<le> 1"
    using unit_scaled [of x sx] assms by (simp add: new_x_def)
  have y: "0 \<le> new_y q sy (x, y, w, h) \<and> new_y q sy (x, y, w, h) \<le> 1"
    using unit_scaled [of y sy] assms by (simp add: new_y_def)
  have w: "0 < new_w q sx (x, y, w, h) \<and> new_w q sx (x, y, w, h) \<le> 1"
    using unit_extent_scaled [of w sx] assms by (simp add: new_w_def)
  have h: "0 < new_h q sy (x, y, w, h) \<and> new_h q sy (x, y, w, h) \<le> 1"
    using unit_extent_scaled [of h sy] assms by (simp add: new_h_def)
  from out at x y w h show ?thesis by blast
qed

theorem remap_keeps_unit_range_witness:
  "(0::nat) < length [(1, 0, 1, 1/4) :: bbox] \<and> [(1, 0, 1, 1/4) :: bbox] ! 0 = (1, 0, 1, 1/4) \<and>
   (0::real) \<le> 1 \<and> (1::real) \<le> 1 \<and> (0::real) \<le> 0 \<and> (0::real) \<le> 1 \<and> (0::real) < 1 \<and>
   (0::real) < 1/4 \<and> (1/4::real) \<le> 1 \<and> (0::real) < 2/5 \<and> (2/5::real) < 1 \<and>
   (0::real) < 3/5 \<and> (3/5::real) < 1 \<and>
   (\<exists>out x' y' w' h'. remap_bboxes 3 (2/5) (3/5) [(1, 0, 1, 1/4)] = Inr out \<and>
      out ! 0 = [x', y', w', h'] \<and>
      0 \<le> x' \<and> x' \<le> 1 \<and> 0 \<le> y' \<and> y' \<le> 1 \<and> 0 < w' \<and> w' \<le> 1 \<and> 0 < h' \<and> h' \<le> 1)"
  using remap_keeps_unit_range [of 0 "[(1, 0, 1, 1/4)]" 1 0 1 "1/4" "2/5" "3/5" 3]
  by simp

text \<open>
  Claim C5. When the composer returns, its box list is the concatenation, in the order
  of the quadrants 0, 1, 2, 3, of the remapped box lists of the four crops, and its label
  list the concatenation in the same order of the four crops' label lists; if every crop
  returned as many labels as boxes, the two final lists have the same length and pairing
  them position by position gives the pairs of quadrant 0, then those of quadrant 1, 2
  and 3, each in its own order.
\<close>

theorem merge_concatenates_in_quadrant_order:
  assumes run: "mosaic_compose env g junk files idir ldir mo_w mo_h sx sy ma mv =
                  Inr (new_img, new_bboxes, new_class_labels)"
    and c0: "random_crop_savebboxes env g (files ! 0) idir ldir (target_h 0 mo_h sy) (target_w 0 mo_w sx)
               ma mv = (Inr (img0, bs0, ls0), g1)"
    and c1: "random_crop_savebboxes env g1 (files ! 1) idir ldir (target_h 1 mo_h sy) (target_w 1 mo_w sx)
               ma mv = (Inr (img1, bs1, ls1), g2)"
    and c2: "random_crop_savebboxes env g2 (files ! 2) idir ldir (target_h 2 mo_h sy) (target_w 2 mo_w sx)
               ma mv = (Inr (img2, bs2, ls2), g3)"
    and c3: "random_crop_savebboxes env g3 (files ! 3) idir ldir (target_h 3 mo_h sy) (target_w 3 mo_w sx)
               ma mv = (Inr (img3, bs3, ls3), g4)"
  shows "\<exists>r0 r1 r2 r3.
     remap_bboxes 0 sx sy bs0 = Inr r0 \<and> remap_bboxes 1 sx sy bs1 = Inr r1 \<and>
     remap_bboxes 2 sx sy bs2 = Inr r2 \<and> remap_bboxes 3 sx sy bs3 = Inr r3 \<and>
     new_bboxes = r0 @ r1 @ r2 @ r3 \<and>
     new_class_labels = ls0 @ ls1 @ ls2 @ ls3 \<and>
     (length bs0 = length ls0 \<and> length bs1 = length ls1 \<and>
      length bs2 = length ls2 \<and> length bs3 = length ls3 \<longrightarrow>
        length new_bboxes = length new_class_labels \<and>
        zip new_bboxes new_class_labels = zip r0 ls0 @ zip r1 ls1 @ zip r2 ls2 @ zip r3 ls3)"
proof -
  from mosaic_compose_InrD [OF run] obtain c st1 b0 l0 st2 b1 l1 st3 b2 l2 st4 b3 l3 where
    q0: "quadrant env 0 files idir ldir mo_w mo_h sx sy ma mv (g, c) = Inr (st1, b0, l0)" and
    q1: "quadrant env 1 files idir ldir mo_w mo_h sx sy ma mv st1 = Inr (st2, b1, l1)" and
    q2: "quadrant env 2 files idir ldir mo_w mo_h sx sy ma mv st2 = Inr (st3, b2, l2)" and
    q3: "quadrant env 3 files idir ldir mo_w mo_h sx sy ma mv st3 = Inr (st4, b3, l3)" and
    bb: "new_bboxes = b0 @ b1 @ b2 @ b3" and ll: "new_class_labels = l0 @ l1 @ l2 @ l3"
    by blast
  note r0 = quadrant_crop_result [OF q0 c0]
  from q1 r0(1) have q1': "quadrant env 1 files idir ldir mo_w mo_h sx sy ma mv (g1, snd st1) = Inr (st2, b1, l1)"
    by (cases st1) simp
  note r1 = quadrant_crop_result [OF q1' c1]
  from q2 r1(1) have q2': "quadrant env 2 files idir ldir mo_w mo_h sx sy ma mv (g2, snd st2) = Inr (st3, b2, l2)"
    by (cases st2) simp
  note r2 = quadrant_crop_result [OF q2' c2]
  from q3 r2(1) have q3': "quadrant env 3 files idir ldir mo_w mo_h sx sy ma mv (g3, snd st3) = Inr (st4, b3, l3)"
    by (cases st3) simp
  note r3 = quadrant_crop_result [OF q3' c3]
  have "remap_bboxes 0 sx sy bs0 = Inr b0" "remap_bboxes 1 sx sy bs1 = Inr b1"
    "remap_bboxes 2 sx sy bs2 = Inr b2" "remap_bboxes 3 sx sy bs3 = Inr b3"
    by (simp_all add: remap_bboxes_map r0(2) r1(2) r2(2) r3(2))
  moreover have "new_bboxes = b0 @ b1 @ b2 @ b3" by (rule bb)
  moreover have "new_class_labels = ls0 @ ls1 @ ls2 @ ls3"
    by (simp add: ll r0(3) r1(3) r2(3) r3(3))
  moreover have "length bs0 = length ls0 \<and> length bs1 = length ls1 \<and>
      length bs2 = length ls2 \<and> length bs3 = length ls3 \<longrightarrow>
        length new_bboxes = length new_class_labels \<and>
        zip new_bboxes new_class_labels = zip b0 ls0 @ zip b1 ls1 @ zip b2 ls2 @ zip b3 ls3"
    by (simp add: bb ll r0(2,3) r1(2,3) r2(2,3) r3(2,3))
  ultimately show ?thesis by blast
qed

theorem merge_concatenates_in_quadrant_order_witness:
  "\<exists>new_img new_bboxes new_class_labels r0 r1 r2 r3.
     mosaic_compose fixture_env 0 (\<lambda>r c. (0, 0, 0)) [''a'', ''blank'', ''c'', ''d''] ''in'' ''in''
       4 4 (1/2) (1/2) 200 (1/10) = Inr (new_img, new_bboxes, new_class_labels) \<and>
     random_crop_savebboxes fixture_env 0 ([''a'', ''blank'', ''c'', ''d''] ! 0) ''in'' ''in''
       (target_h 0 4 (1/2)) (target_w 0 4 (1/2)) 200 (1/10) =
       (Inr (fixture_patch, [(1/2, 1/2, 1/5, 1/5)], [7]), 1) \<and>
     random_crop_savebboxes fixture_env 1 ([''a'', ''blank'', ''c'', ''d''] ! 1) ''in'' ''in''
       (target_h 1 4 (1/2)) (target_w 1 4 (1/2)) 200 (1/10) =
       (Inr (fixture_patch, [], []), 2) \<and>
     random_crop_savebboxes fixture_env 2 ([''a'', ''blank'', ''c'', ''d''] ! 2) ''in'' ''in''
       (target_h 2 4 (1/2)) (target_w 2 4 (1/2)) 200 (1/10) =
       (Inr (fixture_patch, [(1/2, 1/2, 1/5, 1/5)], [7]), 3) \<and>
     random_crop_savebboxes fixture_env 3 ([''a'', ''blank'', ''c'', ''d''] ! 3) ''in'' ''in''
       (target_h 3 4 (1/2)) (target_w 3 4 (1/2)) 200 (1/10) =
       (Inr (fixture_patch, [(1/2, 1/2, 1/5, 1/5)], [7]), 4) \<and>
     remap_bboxes 0 (1/2) (1/2) [(1/2, 1/2, 1/5, 1/5)] = Inr r0 \<and>
     remap_bboxes 1 (1/2) (1/2) [] = Inr r1 \<and>
     remap_bboxes 2 (1/2) (1/2) [(1/2, 1/2, 1/5, 1/5)] = Inr r2 \<and>
     remap_bboxes 3 (1/2) (1/2) [(1/2, 1/2, 1/5, 1/5)] = Inr r3 \<and>
     new_bboxes = r0 @ r1 @ r2 @ r3 \<and>
     new_bboxes = [[1/4, 1/4, 1/10, 1/10], [1/4, 3/4, 1/10, 1/10], [3/4, 3/4, 1/10, 1/10]] \<and>
     new_class_labels = [7] @ [] @ [7] @ [7] \<and>
     length new_bboxes = length new_class_labels \<and>
     zip new_bboxes new_class_labels = zip r0 [7] @ zip r1 [] @ zip r2 [7] @ zip r3 [7]"
proof -
  let ?files = "[''a'', ''blank'', ''c'', ''d'']"
  have c0: "random_crop_savebboxes fixture_env 0 (?files ! 0) ''in'' ''in''
       (target_h 0 4 (1/2)) (target_w 0 4 (1/2)) 200 (1/10) =
       (Inr (fixture_patch, [(1/2, 1/2, 1/5, 1/5)], [7]), 1)"
    by (simp add: fixture_crop_half)
  have c1: "random_crop_savebboxes fixture_env 1 (?files ! 1) ''in'' ''in''
       (target_h 1 4 (1/2)) (target_w 1 4 (1/2)) 200 (1/10) =
       (Inr (fixture_patch, [], []), 2)"
    by (simp add: fixture_crop_half)
  have c2: "random_crop_savebboxes fixture_env 2 (?files ! 2) ''in'' ''in''
       (target_h 2 4 (1/2)) (target_w 2 4 (1/2)) 200 (1/10) =
       (Inr (fixture_patch, [(1/2, 1/2, 1/5, 1/5)], [7]), 3)"
    by (simp add: fixture_crop_half)
  have c3: "random_crop_savebboxes fixture_env 3 (?files ! 3) ''in'' ''in''
       (target_h 3 4 (1/2)) (target_w 3 4 (1/2)) 200 (1/10) =
       (Inr (fixture_patch, [(1/2, 1/2, 1/5, 1/5)], [7]), 4)"
    by (simp add: fixture_crop_half)
  have geo: "(0::int) < 4" "(0::real) < 1/2" "(1/2::real) < 1" and len: "4 \<le> length ?files"
    by simp_all
  from mosaic_compose_succeeds [OF geo(1) geo(1) geo(2,3) geo(2,3) len
      c0 fixture_patch_shape c1 fixture_patch_shape c2 fixture_patch_shape c3 fixture_patch_shape,
      of "\<lambda>r c. (0, 0, 0)"]
  obtain new_img new_bboxes new_class_labels where
    run: "mosaic_compose fixture_env 0 (\<lambda>r c. (0, 0, 0)) ?files ''in'' ''in''
       4 4 (1/2) (1/2) 200 (1/10) = Inr (new_img, new_bboxes, new_class_labels)"
    by blast
  from merge_concatenates_in_quadrant_order [OF run c0 c1 c2 c3]
  obtain r0 r1 r2 r3 where
    r: "remap_bboxes 0 (1/2) (1/2) [(1/2, 1/2, 1/5, 1/5)] = Inr r0"
       "remap_bboxes 1 (1/2) (1/2) [] = Inr r1"
       "remap_bboxes 2 (1/2) (1/2) [(1/2, 1/2, 1/5, 1/5)] = Inr r2"
       "remap_bboxes 3 (1/2) (1/2) [(1/2, 1/2, 1/5, 1/5)] = Inr r3" and
    cat: "new_bboxes = r0 @ r1 @ r2 @ r3" "new_class_labels = [7] @ [] @ [7] @ [7]" and
    pair: "length new_bboxes = length new_class_labels"
      "zip new_bboxes new_class_labels = zip r0 [7] @ zip r1 [] @ zip r2 [7] @ zip r3 [7]"
    by auto
  from r have vals: "r0 = [[1/4, 1/4, 1/10, 1/10]]" "r1 = []" "r2 = [[1/4, 3/4, 1/10, 1/10]]"
      "r3 = [[3/4, 3/4, 1/10, 1/10]]"
    by (simp_all add: remap_bboxes_map remapped_def new_x_def new_y_def new_w_def new_h_def)
  have "new_bboxes = [[1/4, 1/4, 1/10, 1/10], [1/4, 3/4, 1/10, 1/10], [3/4, 3/4, 1/10, 1/10]]"
    by (simp add: cat vals)
  with run c0 c1 c2 c3 r cat pair show ?thesis by blast
qed




text \<open>
  Claim C7. When quadrant \<open>q\<close> has written its cropped image, the canvas has the shape it
  had, and every pixel outside the region of quadrant \<open>q\<close> is the pixel that was there
  before; the regions of two different quadrants have no pixel in common.
\<close>

theorem quadrant_write_frame:
  assumes "quadrant env q files idir ldir mo_w mo_h sx sy ma mv (g, canvas) = Inr ((g', canvas'), bn, lo)"
    and "dx = div_point_x mo_w sx" and "dy = div_point_y mo_h sy"
  shows "height canvas' = height canvas \<and> width canvas' = width canvas \<and>
    (\<forall>r c. (r, c) \<notin> region_set q canvas dx dy \<longrightarrow> pix canvas' r c = pix canvas r c) \<and>
    (\<forall>i<4. \<forall>j<4. i \<noteq> j \<longrightarrow> region_set i canvas dx dy \<inter> region_set j canvas dx dy = {})"
proof -
  from quadrant_InrD [OF assms(1)] obtain img where
    w: "assign_region canvas (region q canvas dx dy) img = Inr canvas'"
    unfolding assms(2,3) by blast
  have "\<forall>r c. (r, c) \<notin> region_set q canvas dx dy \<longrightarrow> pix canvas' r c = pix canvas r c"
    using assign_region_frame(3) [OF w] by (simp add: region_set_def)
  moreover have "\<forall>i<4. \<forall>j<4. i \<noteq> j \<longrightarrow> region_set i canvas dx dy \<inter> region_set j canvas dx dy = {}"
    by (simp add: region_disjoint)
  ultimately show ?thesis
    using assign_region_frame(1,2) [OF w] by simp
qed

theorem quadrant_write_frame_witness:
  "\<exists>g' canvas' bn lo.
     quadrant fixture_env 1 [''a'', ''b'', ''c'', ''d''] ''in'' ''in'' 4 4 (1/2) (1/2) 200 (1/10)
       (0, fixture_canvas) = Inr ((g', canvas'), bn, lo) \<and>
     (2::int) = div_point_x 4 (1/2) \<and> (2::int) = div_point_y 4 (1/2) \<and>
     height canvas' = 4 \<and> width canvas' = 4 \<and>
     (3, 0) \<notin> region_set 1 fixture_canvas 2 2 \<and> pix canvas' 3 0 = pix fixture_canvas 3 0 \<and>
     (0, 3) \<in> region_set 1 fixture_canvas 2 2 \<and> pix canvas' 0 3 = (1, 2, 3) \<and>
     region_set 1 fixture_canvas 2 2 \<inter> region_set 2 fixture_canvas 2 2 = {}"
proof -
  have crop: "random_crop_savebboxes fixture_env (0::nat) ([''a'', ''b'', ''c'', ''d''] ! 1) ''in'' ''in''
       (target_h 1 4 (1/2)) (target_w 1 4 (1/2)) 200 (1/10) =
       (Inr (\<lparr>height = 2, width = 2, pix = (\<lambda>r c. (1, 2, 3))\<rparr>, [(1/2, 1/2, 1/5, 1/5)], [7::nat]), 1)"
    by (simp add: fixture_crop target_half)
  have len: "(1::nat) < length [''a'', ''b'', ''c'', ''d'']" by simp
  have "\<exists>g' canvas' bn lo.
    quadrant fixture_env 1 [''a'', ''b'', ''c'', ''d''] ''in'' ''in'' 4 4 (1/2) (1/2) 200 (1/10)
       (0, fixture_canvas) = Inr ((g', canvas'), bn, lo) \<and> pix canvas' 0 3 = (1, 2, 3)"
    unfolding quadrant_after_crop [OF len crop]
    by (simp add: Let_def assign_region_def region_def slice_to_def in_span_def
        slice_from_def clip_index_def div_point_half fixture_canvas_def)
  then obtain g' canvas' bn lo where run:
    "quadrant fixture_env 1 [''a'', ''b'', ''c'', ''d''] ''in'' ''in'' 4 4 (1/2) (1/2) 200 (1/10)
       (0, fixture_canvas) = Inr ((g', canvas'), bn, lo)" and inside: "pix canvas' 0 3 = (1, 2, 3)"
    by blast
  have dx: "(2::int) = div_point_x 4 (1/2)" and dy: "(2::int) = div_point_y 4 (1/2)"
    by (simp_all add: div_point_half)
  have out: "(3, 0) \<notin> region_set 1 fixture_canvas 2 2" and "in": "(0, 3) \<in> region_set 1 fixture_canvas 2 2"
    by (simp_all add: region_set_cases clip_index_def fixture_canvas_def)
  note t = quadrant_write_frame [OF run dx dy]
  from t have keep: "\<forall>r c. (r, c) \<notin> region_set 1 fixture_canvas 2 2 \<longrightarrow>
      pix canvas' r c = pix fixture_canvas r c"
    by (elim conjE)
  from t have dis: "\<forall>i<4. \<forall>j<4. i \<noteq> j \<longrightarrow>
      region_set i fixture_canvas 2 2 \<inter> region_set j fixture_canvas 2 2 = {}"
    by (elim conjE)
  from dis have d: "region_set 1 fixture_canvas 2 2 \<inter> region_set 2 fixture_canvas 2 2 = {}"
    by simp
  from keep out have k: "pix canvas' 3 0 = pix fixture_canvas 3 0" by blast
  from t have shape: "height canvas' = 4" "width canvas' = 4"
    by (simp_all add: fixture_canvas_def)
  from run dx dy shape out k "in" inside d show ?thesis by blast
qed

text \<open>
  Claim C8. In a run over four files with a canvas of positive size, scale fractions in
  the open unit interval and crops of the target sizes that return as many labels as
  boxes, the composer ends without error and the two files are written; a quadrant whose
  crop returned no box contributes no box and no label; and if all four crops returned no
  box, the label file is written with an empty box list and an empty label list.
\<close>

theorem zero_boxes_contribute_nothing:
  assumes geo: "0 < mo_w" "0 < mo_h" "0 < sx" "sx < 1" "0 < sy" "sy < 1"
    and len: "length files = 4"
    and c0: "random_crop_savebboxes env g (files ! 0) idir ldir (target_h 0 mo_h sy) (target_w 0 mo_w sx)
               ma mv = (Inr (img0, bs0, ls0), g1)"
    and i0: "height img0 = nat (target_h 0 mo_h sy)" "width img0 = nat (target_w 0 mo_w sx)"
    and c1: "random_crop_savebboxes env g1 (files ! 1) idir ldir (target_h 1 mo_h sy) (target_w 1 mo_w sx)
               ma mv = (Inr (img1, bs1, ls1), g2)"
    and i1: "height img1 = nat (target_h 1 mo_h sy)" "width img1 = nat (target_w 1 mo_w sx)"
    and c2: "random_crop_savebboxes env g2 (files ! 2) idir ldir (target_h 2 mo_h sy) (target_w 2 mo_w sx)
               ma mv = (Inr (img2, bs2, ls2), g3)"
    and i2: "height img2 = nat (target_h 2 mo_h sy)" "width img2 = nat (target_w 2 mo_w sx)"
    and c3: "random_crop_savebboxes env g3 (files ! 3) idir ldir (target_h 3 mo_h sy) (target_w 3 mo_w sx)
               ma mv = (Inr (img3, bs3, ls3), g4)"
    and i3: "height img3 = nat (target_h 3 mo_h sy)" "width img3 = nat (target_w 3 mo_w sx)"
    and lock: "length ls0 = length bs0" "length ls1 = length bs1"
              "length ls2 = length bs2" "length ls3 = length bs3"
  shows "\<exists>new_img r0 r1 r2 r3 ip lp.
     remap_bboxes 0 sx sy bs0 = Inr r0 \<and> remap_bboxes 1 sx sy bs1 = Inr r1 \<and>
     remap_bboxes 2 sx sy bs2 = Inr r2 \<and> remap_bboxes 3 sx sy bs3 = Inr r3 \<and>
     (bs0 = [] \<longrightarrow> r0 = [] \<and> ls0 = []) \<and> (bs1 = [] \<longrightarrow> r1 = [] \<and> ls1 = []) \<and>
     (bs2 = [] \<longrightarrow> r2 = [] \<and> ls2 = []) \<and> (bs3 = [] \<longrightarrow> r3 = [] \<and> ls3 = []) \<and>
     mosaic_compose env g junk files idir ldir mo_w mo_h sx sy ma mv =
       Inr (new_img, r0 @ r1 @ r2 @ r3, ls0 @ ls1 @ ls2 @ ls3) \<and>
     create_data_store_path odi odl files = Inr (ip, lp) \<and>
     mosaic env g junk files idir ldir odi odl mo_w mo_h sx sy ma mv s =
       (None, save_label (r0 @ r1 @ r2 @ r3) (ls0 @ ls1 @ ls2 @ ls3) lp (save_img new_img ip s)) \<and>
     (bs0 = [] \<and> bs1 = [] \<and> bs2 = [] \<and> bs3 = [] \<longrightarrow>
        mosaic env g junk files idir ldir odi odl mo_w mo_h sx sy ma mv s =
          (None, save_label [] [] lp (save_img new_img ip s)))"
proof -
  have len4: "4 \<le> length files" using len by simp
  from mosaic_compose_succeeds [OF geo len4 c0 i0 c1 i1 c2 i2 c3 i3, of junk]
  obtain new_img where run: "mosaic_compose env g junk files idir ldir mo_w mo_h sx sy ma mv =
      Inr (new_img,
           map (remapped 0 sx sy) bs0 @ map (remapped 1 sx sy) bs1 @
           map (remapped 2 sx sy) bs2 @ map (remapped 3 sx sy) bs3,
           ls0 @ ls1 @ ls2 @ ls3)"
    by blast
  from create_data_store_path_ok [OF len4, of odi odl]
  obtain ip lp where path: "create_data_store_path odi odl files = Inr (ip, lp)"
    by blast
  have m: "mosaic env g junk files idir ldir odi odl mo_w mo_h sx sy ma mv s =
      (None, save_label
         (map (remapped 0 sx sy) bs0 @ map (remapped 1 sx sy) bs1 @
          map (remapped 2 sx sy) bs2 @ map (remapped 3 sx sy) bs3)
         (ls0 @ ls1 @ ls2 @ ls3) lp (save_img new_img ip s))"
    by (simp add: mosaic_def run path)
  have e: "bs0 = [] \<longrightarrow> ls0 = []" "bs1 = [] \<longrightarrow> ls1 = []" "bs2 = [] \<longrightarrow> ls2 = []" "bs3 = [] \<longrightarrow> ls3 = []"
    using lock by auto
  have all: "bs0 = [] \<and> bs1 = [] \<and> bs2 = [] \<and> bs3 = [] \<longrightarrow>
        mosaic env g junk files idir ldir odi odl mo_w mo_h sx sy ma mv s =
          (None, save_label [] [] lp (save_img new_img ip s))"
    using m lock by auto
  show ?thesis
    apply (rule exI [of _ new_img])
    apply (rule exI [of _ "map (remapped 0 sx sy) bs0"])
    apply (rule exI [of _ "map (remapped 1 sx sy) bs1"])
    apply (rule exI [of _ "map (remapped 2 sx sy) bs2"])
    apply (rule exI [of _ "map (remapped 3 sx sy) bs3"])
    apply (rule exI [of _ ip])
    apply (rule exI [of _ lp])
    using run path m e all by (simp add: remap_bboxes_map)
qed

theorem zero_boxes_contribute_nothing_witness:
  "\<exists>new_img.
     (0::int) < 4 \<and> (0::real) < 1/2 \<and> (1/2::real) < 1 \<and>
     length [''blank'', ''blank'', ''blank'', ''blank''] = 4 \<and>
     random_crop_savebboxes fixture_env 0 ([''blank'', ''blank'', ''blank'', ''blank''] ! 0) ''in'' ''in''
       (target_h 0 4 (1/2)) (target_w 0 4 (1/2)) 200 (1/10) = (Inr (fixture_patch, [], []), 1) \<and>
     random_crop_savebboxes fixture_env 1 ([''blank'', ''blank'', ''blank'', ''blank''] ! 1) ''in'' ''in''
       (target_h 1 4 (1/2)) (target_w 1 4 (1/2)) 200 (1/10) = (Inr (fixture_patch, [], []), 2) \<and>
     random_crop_savebboxes fixture_env 2 ([''blank'', ''blank'', ''blank'', ''blank''] ! 2) ''in'' ''in''
       (target_h 2 4 (1/2)) (target_w 2 4 (1/2)) 200 (1/10) = (Inr (fixture_patch, [], []), 3) \<and>
     random_crop_savebboxes fixture_env 3 ([''blank'', ''blank'', ''blank'', ''blank''] ! 3) ''in'' ''in''
       (target_h 3 4 (1/2)) (target_w 3 4 (1/2)) 200 (1/10) = (Inr (fixture_patch, [], []), 4) \<and>
     height fixture_patch = nat (target_h 0 4 (1/2)) \<and> width fixture_patch = nat (target_w 0 4 (1/2)) \<and>
     mosaic_compose fixture_env 0 (\<lambda>r c. (0, 0, 0)) [''blank'', ''blank'', ''blank'', ''blank'']
       ''in'' ''in'' 4 4 (1/2) (1/2) 200 (1/10) = Inr (new_img, [], []) \<and>
     create_data_store_path ''out'' ''out'' [''blank'', ''blank'', ''blank'', ''blank''] =
       Inr (''out/mo_blank_blank_blank_blank.jpg'', ''out/mo_blank_blank_blank_blank.txt'') \<and>
     mosaic fixture_env 0 (\<lambda>r c. (0, 0, 0)) [''blank'', ''blank'', ''blank'', ''blank'']
       ''in'' ''in'' ''out'' ''out'' 4 4 (1/2) (1/2) 200 (1/10) fixture_store =
       (None, save_label [] [] ''out/mo_blank_blank_blank_blank.txt''
                (save_img new_img ''out/mo_blank_blank_blank_blank.jpg'' fixture_store))"
proof -
  let ?files = "[''blank'', ''blank'', ''blank'', ''blank'']"
  have c0: "random_crop_savebboxes fixture_env 0 (?files ! 0) ''in'' ''in''
       (target_h 0 4 (1/2)) (target_w 0 4 (1/2)) 200 (1/10) = (Inr (fixture_patch, [], []), 1)"
    by (simp add: fixture_crop_half)
  have c1: "random_crop_savebboxes fixture_env 1 (?files ! 1) ''in'' ''in''
       (target_h 1 4 (1/2)) (target_w 1 4 (1/2)) 200 (1/10) = (Inr (fixture_patch, [], []), 2)"
    by (simp add: fixture_crop_half)
  have c2: "random_crop_savebboxes fixture_env 2 (?files ! 2) ''in'' ''in''
       (target_h 2 4 (1/2)) (target_w 2 4 (1/2)) 200 (1/10) = (Inr (fixture_patch, [], []), 3)"
    by (simp add: fixture_crop_half)
  have c3: "random_crop_savebboxes fixture_env 3 (?files ! 3) ''in'' ''in''
       (target_h 3 4 (1/2)) (target_w 3 4 (1/2)) 200 (1/10) = (Inr (fixture_patch, [], []), 4)"
    by (simp add: fixture_crop_half)
  have geo: "(0::int) < 4" "(0::real) < 1/2" "(1/2::real) < 1" and len: "length ?files = 4"
    by simp_all
  have lock: "length ([]::nat list) = length ([]::bbox list)" by simp
  have path: "create_data_store_path ''out'' ''out'' ?files =
       Inr (''out/mo_blank_blank_blank_blank.jpg'', ''out/mo_blank_blank_blank_blank.txt'')"
    by (simp add: create_data_store_path_def mo_name_def base_name_def list_get_def)
  from zero_boxes_contribute_nothing [OF geo(1) geo(1) geo(2,3) geo(2,3) len
      c0 fixture_patch_shape c1 fixture_patch_shape c2 fixture_patch_shape c3 fixture_patch_shape
      lock lock lock lock,
      of "\<lambda>r c. (0, 0, 0)" "''out''" "''out''" fixture_store]
  obtain new_img where
    "mosaic_compose fixture_env 0 (\<lambda>r c. (0, 0, 0)) ?files ''in'' ''in'' 4 4 (1/2) (1/2) 200 (1/10) =
       Inr (new_img, [], [])"
    "mosaic fixture_env 0 (\<lambda>r c. (0, 0, 0)) ?files
       ''in'' ''in'' ''out'' ''out'' 4 4 (1/2) (1/2) 200 (1/10) fixture_store =
       (None, save_label [] [] ''out/mo_blank_blank_blank_blank.txt''
                (save_img new_img ''out/mo_blank_blank_blank_blank.jpg'' fixture_store))"
    unfolding path by auto
  with geo len c0 c1 c2 c3 path fixture_patch_shape [of 0] show ?thesis by blast
qed

text \<open>
  Claim C9 says that each base in the output name is the source file name with its
  extension removed. The code takes the part of the name before its first dot, which is
  something else for a name with more than one dot: for the files \<open>a.b.jpg\<close>, \<open>c.jpg\<close>,
  \<open>d.jpg\<close>, \<open>e.jpg\<close> it builds \<open>mo_a_c_d_e\<close>, where the rule of the claim gives
  \<open>mo_a.b_c_d_e\<close>.
\<close>

theorem store_path_cuts_at_first_dot:
  "create_data_store_path ''out'' ''out'' [''a.b.jpg'', ''c.jpg'', ''d.jpg'', ''e.jpg''] =
     Inr (''out/mo_a_c_d_e.jpg'', ''out/mo_a_c_d_e.txt'') \<and>
   sep_join [''out'', spec_store_name [''a.b.jpg'', ''c.jpg'', ''d.jpg'', ''e.jpg''] ''.jpg''] =
     ''out/mo_a.b_c_d_e.jpg'' \<and>
   sep_join [''out'', spec_store_name [''a.b.jpg'', ''c.jpg'', ''d.jpg'', ''e.jpg''] ''.txt''] =
     ''out/mo_a.b_c_d_e.txt''"
  by (simp add: create_data_store_path_four spec_store_name_def spec_base_def)

text \<open>
  Claim C10. The remap stage of a quadrant neither drops nor adds anything: whenever the
  crop of quadrant \<open>q\<close> returns boxes and labels, the remap loop ends without error with
  one remapped box per box of the crop, at the same index, and the labels the quadrant
  contributes are the crop's labels, unchanged.
\<close>

theorem remap_stage_keeps_boxes_and_labels:
  assumes "q < length files"
    and "random_crop_savebboxes env g (files ! q) idir ldir (target_h q mo_h sy) (target_w q mo_w sx)
           ma mv = (Inr (img, bboxes, class_labels), g')"
    and "quadrant env q files idir ldir mo_w mo_h sx sy ma mv (g, canvas) = Inr (st', bboxes_new, labels_out)"
  shows "remap_bboxes q sx sy bboxes = Inr bboxes_new \<and>
         length bboxes_new = length bboxes \<and>
         bboxes_new = map (\<lambda>box. [new_x q sx box, new_y q sy box, new_w q sx box, new_h q sy box]) bboxes \<and>
         labels_out = class_labels"
proof -
  from assms(3) quadrant_after_crop [OF assms(1,2), of canvas]
  have "bboxes_new = map (remapped q sx sy) bboxes \<and> labels_out = class_labels"
    by (auto simp: err_bind_Inr_iff)
  then show ?thesis
    by (simp add: remap_bboxes_map remapped_def)
qed

theorem remap_stage_keeps_boxes_and_labels_witness:
  "\<exists>st' bn lo.
     (1::nat) < length [''a'', ''b'', ''c'', ''d''] \<and>
     random_crop_savebboxes fixture_env (0::nat) ([''a'', ''b'', ''c'', ''d''] ! 1) ''in'' ''in''
       (target_h 1 4 (1/2)) (target_w 1 4 (1/2)) 200 (1/10) =
       (Inr (\<lparr>height = 2, width = 2, pix = (\<lambda>r c. (1, 2, 3))\<rparr>, [(1/2, 1/2, 1/5, 1/5)], [7::nat]), 1) \<and>
     quadrant fixture_env 1 [''a'', ''b'', ''c'', ''d''] ''in'' ''in'' 4 4 (1/2) (1/2) 200 (1/10)
       (0, fixture_canvas) = Inr (st', bn, lo) \<and>
     remap_bboxes 1 (1/2) (1/2) [(1/2, 1/2, 1/5, 1/5)] = Inr bn \<and>
     length bn = 1 \<and> bn = [[3/4, 1/4, 1/10, 1/10]] \<and> lo = [7]"
proof -
  have crop: "random_crop_savebboxes fixture_env (0::nat) ([''a'', ''b'', ''c'', ''d''] ! 1) ''in'' ''in''
       (target_h 1 4 (1/2)) (target_w 1 4 (1/2)) 200 (1/10) =
       (Inr (\<lparr>height = 2, width = 2, pix = (\<lambda>r c. (1, 2, 3))\<rparr>, [(1/2, 1/2, 1/5, 1/5)], [7::nat]), 1)"
    by (simp add: fixture_crop target_half)
  have len: "(1::nat) < length [''a'', ''b'', ''c'', ''d'']" by simp
  have "\<exists>st' bn lo.
    quadrant fixture_env 1 [''a'', ''b'', ''c'', ''d''] ''in'' ''in'' 4 4 (1/2) (1/2) 200 (1/10)
       (0, fixture_canvas) = Inr (st', bn, lo)"
    unfolding quadrant_after_crop [OF len crop]
    by (simp add: Let_def assign_region_def region_def slice_to_def
        slice_from_def clip_index_def div_point_half fixture_canvas_def)
  then obtain st' bn lo where run:
    "quadrant fixture_env 1 [''a'', ''b'', ''c'', ''d''] ''in'' ''in'' 4 4 (1/2) (1/2) 200 (1/10)
       (0, fixture_canvas) = Inr (st', bn, lo)"
    by blast
  from remap_stage_keeps_boxes_and_labels [OF len crop run] len crop run
  show ?thesis
    by (auto simp: new_x_def new_y_def new_w_def new_h_def)
qed

end
